theory Spec2Isabelle
  imports Complex_Main "HOL-Library.AList"
begin

section \<open>Common Python values\<close>

text \<open>
  Python's unbounded integers are \<open>int\<close>. A Python \<open>float\<close> that the code only
  multiplies, divides and compares is modelled by its exact value, a \<open>rat\<close>: the
  products and quotients below are of integers far below \<open>2^53\<close> (batch sizes, counts),
  where the nearest double lies on the same side of every half-integer and of every
  threshold the code compares with as the exact value does.
\<close>

datatype py_error =
    ValueError string
  | RuntimeError string
  | IndexError
  | CsvFormatError string

text \<open>
  A statement that may raise, followed by the rest of the block: the exception of the
  first, or the rest run on its value.
\<close>

definition and_then :: "'e + 'a \<Rightarrow> ('a \<Rightarrow> 'e + 'b) \<Rightarrow> 'e + 'b" where
  "and_then r f = (case r of Inl e \<Rightarrow> Inl e | Inr v \<Rightarrow> f v)"

text \<open>
  Python's built-in \<open>round\<close> on a float: to the nearest integer, a tie to the even one.
\<close>

definition py_round :: "rat \<Rightarrow> int" where
  "py_round x =
     (let f = \<lfloor>x\<rfloor>; d = x - of_int f
      in if d < 1 / 2 then f
         else if 1 / 2 < d then f + 1
         else if even f then f else f + 1)"

section \<open>Strings, rows and the Python built-ins\<close>

text \<open>
  A Python \<open>str\<close> is a sequence of Unicode code points: a list of naturals. \<open>asc\<close>
  writes an ASCII literal.
\<close>

type_synonym pystr = "nat list"

definition asc :: "string \<Rightarrow> pystr" where
  "asc s = map of_char s"

text \<open>
  The built-ins of the language that the code calls on strings. They are Unicode
  tables and parsers of the Python runtime, not code of this repository, so the
  functions that call them take them as a parameter: \<open>int_of_str s\<close> is \<open>int(s)\<close>
  (\<open>None\<close> where it raises), \<open>float_of_str s\<close> is \<open>float(s)\<close> on a finite value,
  \<open>str_strip\<close> and \<open>str_lower\<close> are \<open>s.strip()\<close> and \<open>s.lower()\<close>, \<open>isdigit\<close>,
  \<open>isspace\<close> are the methods of a one-character string and \<open>is_word_char c\<close> says
  that the regular expression class \<open>[\w\d]\<close> matches \<open>c\<close>.
\<close>

record py_builtins =
  int_of_str :: "pystr \<Rightarrow> int option"
  float_of_str :: "pystr \<Rightarrow> rat option"
  str_strip :: "pystr \<Rightarrow> pystr"
  str_lower :: "pystr \<Rightarrow> pystr"
  isdigit :: "nat \<Rightarrow> bool"
  isspace :: "nat \<Rightarrow> bool"
  is_word_char :: "nat \<Rightarrow> bool"

text \<open>The dataclasses of models.py; each extends the one before by its extra fields.\<close>

record BaseWordRow =
  word_id :: int
  word :: pystr
  type :: pystr

record ScoreResult = BaseWordRow +
  rarity_level :: int
  tag :: pystr
  confidence :: rat

record RunCsvRow = ScoreResult +
  scored_at :: pystr
  model :: pystr
  run_slug :: pystr

record RunBaseline =
  count :: int
  min_id :: "int option"
  max_id :: "int option"

text \<open>
  The built-ins on ASCII text, for evaluating the functions on concrete inputs:
  \<open>int\<close> on an optional minus sign and decimal digits, \<open>float\<close> on digits with an
  optional fraction, \<open>strip\<close> of ASCII white space, \<open>lower\<close> of \<open>A\<close> to \<open>Z\<close>. On
  such text the runtime's functions give these values.
\<close>

definition ascii_isdigit :: "nat \<Rightarrow> bool" where
  "ascii_isdigit c = (48 \<le> c \<and> c \<le> 57)"

definition ascii_isspace :: "nat \<Rightarrow> bool" where
  "ascii_isspace c = (c \<in> {9, 10, 11, 12, 13, 28, 29, 30, 31, 32})"

definition ascii_is_word_char :: "nat \<Rightarrow> bool" where
  "ascii_is_word_char c =
     (ascii_isdigit c \<or> (65 \<le> c \<and> c \<le> 90) \<or> (97 \<le> c \<and> c \<le> 122) \<or> c = 95)"

fun digits_value :: "nat list \<Rightarrow> nat \<Rightarrow> nat option" where
  "digits_value [] acc = Some acc"
| "digits_value (c # cs) acc =
     (if ascii_isdigit c then digits_value cs (acc * 10 + (c - 48)) else None)"

definition ascii_int_of_str :: "pystr \<Rightarrow> int option" where
  "ascii_int_of_str s =
     (case s of
        [] \<Rightarrow> None
      | c # cs \<Rightarrow>
          if c = 45 then (if cs = [] then None else map_option (\<lambda>n. - int n) (digits_value cs 0))
          else map_option int (digits_value s 0))"

definition ascii_float_of_str :: "pystr \<Rightarrow> rat option" where
  "ascii_float_of_str s =
     (let whole = takeWhile (\<lambda>c. c \<noteq> 46) s; rest = dropWhile (\<lambda>c. c \<noteq> 46) s
      in if whole = [] then None
         else case digits_value whole 0 of
                None \<Rightarrow> None
              | Some w \<Rightarrow>
                  (case rest of
                     [] \<Rightarrow> Some (of_nat w)
                   | _ # fracs \<Rightarrow>
                       (case digits_value fracs 0 of
                          None \<Rightarrow> None
                        | Some f \<Rightarrow> Some (of_nat w + of_nat f / of_nat (10 ^ length fracs)))))"

definition ascii_strip :: "pystr \<Rightarrow> pystr" where
  "ascii_strip s = rev (dropWhile ascii_isspace (rev (dropWhile ascii_isspace s)))"

definition ascii_lower :: "pystr \<Rightarrow> pystr" where
  "ascii_lower s = map (\<lambda>c. if 65 \<le> c \<and> c \<le> 90 then c + 32 else c) s"

definition ascii_builtins :: py_builtins where
  "ascii_builtins =
     \<lparr>int_of_str = ascii_int_of_str, float_of_str = ascii_float_of_str,
      str_strip = ascii_strip, str_lower = ascii_lower,
      isdigit = ascii_isdigit, isspace = ascii_isspace, is_word_char = ascii_is_word_char\<rparr>"

section \<open>Adaptive batch size controller (batch_size_adapter.py)\<close>










section \<open>Splitting a selection count between two halves (lm/client.py)\<close>

definition compute_split_expected :: "int \<Rightarrow> int \<Rightarrow> int \<Rightarrow> int" where
  "compute_split_expected total_expected left_size total_size =
     (if total_expected \<le> 0 \<or> left_size \<le> 0 \<or> total_size \<le> 0 then 0
      else if total_size \<le> left_size then total_expected
      else py_round (of_int (total_expected * left_size) / of_int total_size))"

text \<open>
  The bisection of \<open>_score_batch_resilient_internal\<close> in selection mode:
  \<open>split_idx = len(batch) // 2\<close>, the left count from \<open>_compute_split_expected\<close>,
  the right count what is left of the total.
\<close>

definition split_expected :: "int \<Rightarrow> 'a list \<Rightarrow> int \<times> int" where
  "split_expected total_expected batch =
     (let split_idx = length batch div 2;
          left_batch = take split_idx batch;
          left_expected = compute_split_expected total_expected
                            (int (length left_batch)) (int (length batch));
          right_expected = total_expected - left_expected
      in (left_expected, right_expected))"

section \<open>Properties of the rounding\<close>

lemma py_round_upper: "of_int (py_round x) \<le> x + 1 / 2"
  unfolding py_round_def Let_def by (auto; linarith)

lemma py_round_lower: "x - 1 / 2 \<le> of_int (py_round x)"
  unfolding py_round_def Let_def by (auto; linarith)


lemma py_round_lt_int: "x < of_int n + 1 / 2 \<Longrightarrow> py_round x \<le> n"
proof -
  assume a: "x < of_int n + 1 / 2"
  have "of_int (py_round x) \<le> x + 1 / 2" by (rule py_round_upper)
  with a have "(of_int (py_round x) :: rat) < of_int n + 1" by linarith
  then have "(of_int (py_round x) :: rat) < of_int (n + 1)" by simp
  then have "py_round x < n + 1" by (simp only: of_int_less_iff)
  then show ?thesis by simp
qed

lemma py_round_le_int: "x \<le> of_int n \<Longrightarrow> py_round x \<le> n"
  by (rule py_round_lt_int) linarith

lemma py_round_ge_int: "of_int n \<le> x \<Longrightarrow> n \<le> py_round x"
proof -
  assume a: "of_int n \<le> x"
  have "x - 1 / 2 \<le> of_int (py_round x)" by (rule py_round_lower)
  with a have "(of_int n :: rat) - 1 < of_int (py_round x)" by linarith
  then have "(of_int (n - 1) :: rat) < of_int (py_round x)" by simp
  then have "n - 1 < py_round x" by (simp only: of_int_less_iff)
  then show ?thesis by simp
qed


section \<open>The adapter stays between its bounds\<close>







section \<open>The halves of a split share the expected count\<close>

lemma split_left_value:
  assumes "0 < E" "E < int (length batch)"
  shows "fst (split_expected E batch) =
           py_round (of_int (E * int (length batch div 2)) / of_int (int (length batch)))"
proof -
  from assms have "2 \<le> length batch" by linarith
  then have a: "(length batch div 2 = 0) = False"
    "(length batch \<le> length batch div 2) = False" "(batch = []) = False"
    by auto
  have b: "min (length batch) (length batch div 2) = length batch div 2" by simp
  from assms(1) show ?thesis
    by (simp add: split_expected_def compute_split_expected_def Let_def a b)
qed

text \<open>
  C4. When a selection-mode batch is bisected at its midpoint with a total expected
  count \<open>E\<close>, \<open>0 < E < len(batch)\<close>, the left half is assigned
  \<open>round(E * left_size / total_size)\<close> and the right half \<open>E - left\<close>: the two counts
  sum to \<open>E\<close>, each lies between 0 and the size of its half, and what the rounding
  leaves over goes to the right half.
\<close>

theorem split_expected_sound:
  assumes "0 < E" "E < int (length batch)"
  shows "case split_expected E batch of (l, r) \<Rightarrow>
           l + r = E
         \<and> l = py_round (of_int (E * int (length batch div 2)) / of_int (int (length batch)))
         \<and> r = E - l
         \<and> 0 \<le> l \<and> l \<le> int (length (take (length batch div 2) batch))
         \<and> 0 \<le> r \<and> r \<le> int (length (drop (length batch div 2) batch))"
proof -
  define n where "n = int (length batch)"
  define h where "h = int (length batch div 2)"
  define x :: rat where "x = of_int (E * h) / of_int n"
  define l where "l = py_round x"
  from assms have n2: "2 \<le> n" unfolding n_def by linarith
  have h: "0 < h" "h < n" "2 * h \<le> n" using n2 unfolding h_def n_def by auto
  have npos: "(0::rat) < of_int n" using n2 by simp
  have fst_eq: "fst (split_expected E batch) = l"
    using split_left_value[OF assms] unfolding l_def x_def h_def n_def by simp
  have snd_eq: "snd (split_expected E batch) = E - fst (split_expected E batch)"
    by (simp add: split_expected_def Let_def)
  have x0: "0 \<le> x" unfolding x_def using assms(1) h(1) npos by simp
  have "E * h \<le> h * n" using assms(2) h(1) unfolding n_def by (simp add: mult.commute)
  then have "(of_int (E * h) :: rat) \<le> of_int h * of_int n"
    by (metis of_int_le_iff of_int_mult)
  then have xh: "x \<le> of_int h" unfolding x_def using npos by (simp add: pos_divide_le_eq)
  have "E * h \<le> E * n" using assms(1) h(2) by simp
  then have "(of_int (E * h) :: rat) \<le> of_int E * of_int n"
    by (metis of_int_le_iff of_int_mult)
  then have xE: "x \<le> of_int E" unfolding x_def using npos by (simp add: pos_divide_le_eq)
  have l0: "0 \<le> l" unfolding l_def using py_round_ge_int[of 0 x] x0 by simp
  have lh: "l \<le> h" unfolding l_def using py_round_le_int[OF xh] .
  have lE: "l \<le> E" unfolding l_def using py_round_le_int[OF xE] .
  have "E * (n - h) < n * (n - h)" using assms(2) h(2) unfolding n_def by simp
  then have "E * n - n * (n - h) < E * h" by (simp add: algebra_simps)
  then have "(of_int (E * n - n * (n - h)) :: rat) < of_int (E * h)"
    by (simp only: of_int_less_iff)
  then have "(of_int E - of_int (n - h)) * (of_int n :: rat) < of_int (E * h)"
    by (simp add: algebra_simps)
  then have "(of_int E :: rat) - of_int (n - h) < x"
    unfolding x_def using npos by (simp add: pos_less_divide_eq)
  moreover have "x - 1 / 2 \<le> of_int l" unfolding l_def by (rule py_round_lower)
  ultimately have "(of_int E :: rat) - of_int (n - h) - 1 / 2 < of_int l" by linarith
  then have "(of_int (E - (n - h) - 1) :: rat) < of_int l" by simp
  then have "E - (n - h) - 1 < l" by (simp only: of_int_less_iff)
  then have rr: "E - l \<le> n - h" by simp
  have lens: "int (length (take (length batch div 2) batch)) = h"
       "int (length (drop (length batch div 2) batch)) = n - h"
    using h unfolding h_def n_def by auto
  have eq: "split_expected E batch = (l, E - l)"
    using fst_eq snd_eq by (simp add: prod_eq_iff)
  have lval: "l = py_round (of_int (E * int (length batch div 2)) / of_int (int (length batch)))"
    unfolding l_def x_def h_def n_def ..
  show ?thesis
    unfolding eq prod.case lens
    using l0 lh lE rr lval by (intro conjI) simp_all
qed

text \<open>
  The theorem at a batch of six with three expected: \<open>3 * 3 / 6 = 1.5\<close> rounds to the
  even 2, and the right half gets the remaining 1.
\<close>

theorem split_expected_sound_witness:
  "(0::int) < 3 \<and> 3 < int (length [10, 20, 30, 40, 50, 60 :: int])
   \<and> (case split_expected 3 [10, 20, 30, 40, 50, 60 :: int] of (l, r) \<Rightarrow>
           l + r = 3
         \<and> l = py_round (of_int (3 * int (length [10, 20, 30, 40, 50, 60 :: int] div 2))
                          / of_int (int (length [10, 20, 30, 40, 50, 60 :: int])))
         \<and> r = 3 - l
         \<and> 0 \<le> l
         \<and> l \<le> int (length (take (length [10, 20, 30, 40, 50, 60 :: int] div 2)
                                 [10, 20, 30, 40, 50, 60 :: int]))
         \<and> 0 \<le> r
         \<and> r \<le> int (length (drop (length [10, 20, 30, 40, 50, 60 :: int] div 2)
                                 [10, 20, 30, 40, 50, 60 :: int])))"
proof -
  have h1: "(0::int) < 3" by simp
  have h2: "3 < int (length [10, 20, 30, 40, 50, 60 :: int])" by simp
  from split_expected_sound[OF h1 h2] h1 h2 show ?thesis by (intro conjI)
qed

lemma split_expected_six: "split_expected 3 [10, 20, 30, 40, 50, 60 :: int] = (2, 1)"
  by code_simp

section \<open>The guarded merge of a run table (run_csv_repository.py)\<close>

record CsvRecord =
  line_number :: int
  rec_values :: "pystr list"

record CsvTable =
  headers :: "pystr list"
  records :: "CsvRecord list"

text \<open>
  What is stored at the path of the run table: nothing, or a file that
  \<open>CsvCodec.read_table\<close> reads as a table or rejects with an error. A table written by
  \<open>write_table_atomic\<close> is read back as it was written.
\<close>

datatype csv_file = NoFile | Stored "py_error + CsvTable"

definition RUN_CSV_HEADERS :: "pystr list" where
  "RUN_CSV_HEADERS = [asc ''word_id'', asc ''word'', asc ''type'', asc ''rarity_level'',
     asc ''tag'', asc ''confidence'', asc ''scored_at'', asc ''model'', asc ''run_slug'']"

text \<open>\<open>dict(zip(table.headers, rec.values))\<close> and \<open>row.get(key, "")\<close>: the last of
  two equal headers wins.\<close>

definition row_get :: "pystr list \<Rightarrow> pystr list \<Rightarrow> pystr \<Rightarrow> pystr" where
  "row_get hs vs key = (case map_of (rev (zip hs vs)) key of None \<Rightarrow> [] | Some v \<Rightarrow> v)"

definition required_columns :: "pystr list \<Rightarrow> pystr list \<Rightarrow> py_error + unit" where
  "required_columns actual required =
     (let missing = filter (\<lambda>col. col \<notin> set actual) required
      in if missing \<noteq> [] then Inl (ValueError ''is missing required columns'') else Inr ())"

definition parse_int :: "py_builtins \<Rightarrow> pystr \<Rightarrow> py_error + int" where
  "parse_int py raw =
     (case int_of_str py raw of None \<Rightarrow> Inl (CsvFormatError ''Invalid int'') | Some i \<Rightarrow> Inr i)"

definition parse_float :: "py_builtins \<Rightarrow> pystr \<Rightarrow> py_error + rat" where
  "parse_float py raw =
     (case float_of_str py raw of None \<Rightarrow> Inl (CsvFormatError ''Invalid float'')
      | Some x \<Rightarrow> Inr x)"

definition require_non_blank :: "py_builtins \<Rightarrow> pystr \<Rightarrow> py_error + pystr" where
  "require_non_blank py val =
     (if str_strip py val = [] then Inl (CsvFormatError ''Blank'') else Inr val)"

text \<open>The body of the loop of \<open>load_run_rows\<close> for one record, in the order of the source.\<close>

definition parse_run_row :: "py_builtins \<Rightarrow> pystr list \<Rightarrow> CsvRecord \<Rightarrow> py_error + RunCsvRow" where
  "parse_run_row py hs rec =
     (let get = row_get hs (rec_values rec) in
      and_then (parse_int py (get (asc ''rarity_level''))) (\<lambda>rarity.
      and_then (parse_float py (get (asc ''confidence''))) (\<lambda>conf.
      if rarity < 1 \<or> 5 < rarity then Inl (CsvFormatError ''rarity_level out of range'')
      else if conf < 0 \<or> 1 < conf then Inl (CsvFormatError ''confidence out of range'')
      else
      and_then (parse_int py (get (asc ''word_id''))) (\<lambda>wid.
      and_then (require_non_blank py (get (asc ''word''))) (\<lambda>w.
      and_then (require_non_blank py (get (asc ''type''))) (\<lambda>t.
      Inr \<lparr>word_id = wid, word = w, type = t, rarity_level = rarity,
           tag = get (asc ''tag''), confidence = conf, scored_at = get (asc ''scored_at''),
           model = get (asc ''model''), run_slug = get (asc ''run_slug'')\<rparr>))))))"

text \<open>
  A Python \<open>dict\<close> keeps its keys in insertion order and overwrites in place: an
  association list under \<open>AList.update\<close>. \<open>by_id[parsed.word_id] = parsed\<close> for each
  record, stopping at the first record that raises.
\<close>

fun load_records ::
  "py_builtins \<Rightarrow> pystr list \<Rightarrow> CsvRecord list \<Rightarrow> (int \<times> RunCsvRow) list
     \<Rightarrow> py_error + (int \<times> RunCsvRow) list" where
  "load_records py hs [] by_id = Inr by_id"
| "load_records py hs (rec # recs) by_id =
     (case parse_run_row py hs rec of
        Inl e \<Rightarrow> Inl e
      | Inr parsed \<Rightarrow> load_records py hs recs (AList.update (word_id parsed) parsed by_id))"

definition load_run_rows :: "py_builtins \<Rightarrow> csv_file \<Rightarrow> py_error + RunCsvRow list" where
  "load_run_rows py file =
     (case file of
        NoFile \<Rightarrow> Inr []
      | Stored (Inl e) \<Rightarrow> Inl e
      | Stored (Inr table) \<Rightarrow>
          (case required_columns (headers table) RUN_CSV_HEADERS of
             Inl e \<Rightarrow> Inl e
           | Inr _ \<Rightarrow>
               (case load_records py (headers table) (records table) [] of
                  Inl e \<Rightarrow> Inl e
                | Inr by_id \<Rightarrow> Inr (sort_key word_id (map snd by_id)))))"

definition compute_baseline :: "RunCsvRow list \<Rightarrow> RunBaseline" where
  "compute_baseline rows =
     (if rows = [] then \<lparr>count = 0, min_id = None, max_id = None\<rparr>
      else let ids = map word_id rows
           in \<lparr>count = int (length rows), min_id = Some (Min (set ids)),
               max_id = Some (Max (set ids))\<rparr>)"

definition assert_not_shrunk :: "RunCsvRow list \<Rightarrow> RunBaseline \<Rightarrow> py_error + unit" where
  "assert_not_shrunk merged_rows baseline =
     (let merged_count = int (length merged_rows) in
      if merged_count < count baseline
      then Inl (RuntimeError ''Guarded rewrite aborted: mergedCount < baseline'')
      else
        let first_id = (if merged_rows \<noteq> [] then Some (word_id (hd merged_rows)) else None);
            last_id = (if merged_rows \<noteq> [] then Some (word_id (last merged_rows)) else None)
        in if min_id baseline \<noteq> None \<and> first_id \<noteq> None
              \<and> the (min_id baseline) < the first_id
           then Inl (RuntimeError ''Guarded rewrite aborted: merged minId > baseline'')
           else if max_id baseline \<noteq> None \<and> last_id \<noteq> None
              \<and> the last_id < the (max_id baseline)
           then Inl (RuntimeError ''Guarded rewrite aborted: merged maxId < baseline'')
           else Inr ())"

text \<open>\<open>_serialize_for_headers\<close> writes the numbers with \<open>str\<close>; the printer of the
  runtime is the parameter \<open>show\<close>.\<close>

definition serialize_for_headers ::
  "(RunCsvRow \<Rightarrow> pystr \<Rightarrow> pystr) \<Rightarrow> RunCsvRow \<Rightarrow> pystr list \<Rightarrow> pystr list" where
  "serialize_for_headers show row hs = map (show row) hs"

definition rewrite_run_rows_atomic ::
  "(RunCsvRow \<Rightarrow> pystr \<Rightarrow> pystr) \<Rightarrow> RunCsvRow list \<Rightarrow> csv_file" where
  "rewrite_run_rows_atomic show rows =
     (let body = map (\<lambda>r. serialize_for_headers show r RUN_CSV_HEADERS) (sort_key word_id rows)
      in Stored (Inr \<lparr>headers = RUN_CSV_HEADERS,
                     records = map (\<lambda>(i, vs). \<lparr>line_number = int i + 2, rec_values = vs\<rparr>)
                                   (enumerate 0 body)\<rparr>))"

text \<open>
  The table that \<open>merge_and_rewrite_atomic\<close> is about to write: the rows of the file
  keyed by id, overwritten by the rows in memory, sorted by id.
\<close>

definition merged_rows_of ::
  "py_builtins \<Rightarrow> csv_file \<Rightarrow> RunCsvRow list \<Rightarrow> py_error + RunCsvRow list" where
  "merged_rows_of py file in_memory_rows =
     (case load_run_rows py file of
        Inl e \<Rightarrow> Inl e
      | Inr loaded \<Rightarrow>
          (let merged = fold (\<lambda>r m. AList.update (word_id r) r m) loaded [];
               merged' = fold (\<lambda>row m. AList.update (word_id row) row m) in_memory_rows merged
           in Inr (sort_key word_id (map snd merged'))))"

text \<open>The result is the exception raised, if any, and the file after the call.\<close>

definition merge_and_rewrite_atomic ::
  "py_builtins \<Rightarrow> (RunCsvRow \<Rightarrow> pystr \<Rightarrow> pystr) \<Rightarrow> csv_file \<Rightarrow> RunCsvRow list \<Rightarrow> RunBaseline
     \<Rightarrow> py_error option \<times> csv_file" where
  "merge_and_rewrite_atomic py show file in_memory_rows baseline =
     (case merged_rows_of py file in_memory_rows of
        Inl e \<Rightarrow> (Some e, file)
      | Inr merged_rows \<Rightarrow>
          (case assert_not_shrunk merged_rows baseline of
             Inl e \<Rightarrow> (Some e, file)
           | Inr _ \<Rightarrow> (None, rewrite_run_rows_atomic show merged_rows)))"

section \<open>The guard fires before the write\<close>

lemma sorted_key_hd_Min:
  assumes "sorted (map f xs)" "xs \<noteq> []"
  shows "f (hd xs) = Min (f ` set xs)"
proof -
  from assms obtain y ys where xs: "xs = y # ys" by (cases xs) auto
  with assms(1) have "\<forall>z \<in> set ys. f y \<le> f z" by auto
  then show ?thesis unfolding xs by (auto intro!: Min_eqI[symmetric])
qed

lemma sorted_key_last_Max:
  assumes "sorted (map f xs)" "xs \<noteq> []"
  shows "f (last xs) = Max (f ` set xs)"
proof -
  from assms(2) obtain ys y where xs: "xs = ys @ [y]" by (cases xs rule: rev_cases) auto
  with assms(1) have "\<forall>z \<in> set ys. f z \<le> f y" by (auto simp: sorted_append)
  then show ?thesis unfolding xs by (auto intro!: Max_eqI[symmetric])
qed

lemma merged_rows_sorted:
  "merged_rows_of py file rows = Inr m \<Longrightarrow> sorted (map word_id m)"
  by (auto simp: merged_rows_of_def Let_def split: sum.splits)

lemma merge_raises_untouched:
  "fst (merge_and_rewrite_atomic py shw file rows b) \<noteq> None
     \<Longrightarrow> snd (merge_and_rewrite_atomic py shw file rows b) = file"
  by (auto simp: merge_and_rewrite_atomic_def split: sum.splits)

text \<open>
  C5. Let \<open>m\<close> be the merged table of a run of \<open>merge_and_rewrite_atomic\<close>. If \<open>m\<close> has
  fewer rows than \<open>baseline.count\<close>, or its minimum id is greater than
  \<open>baseline.min_id\<close>, or its maximum id is less than \<open>baseline.max_id\<close>, then the
  call raises and the file is what it was before the call.
\<close>

theorem merge_guard_fires_before_write:
  assumes "merged_rows_of py file in_memory_rows = Inr m"
    and "int (length m) < count baseline
       \<or> (\<exists>x. min_id baseline = Some x \<and> m \<noteq> [] \<and> x < Min (word_id ` set m))
       \<or> (\<exists>x. max_id baseline = Some x \<and> m \<noteq> [] \<and> Max (word_id ` set m) < x)"
  shows "\<exists>msg. merge_and_rewrite_atomic py shw file in_memory_rows baseline
                 = (Some (RuntimeError msg), file)"
proof -
  have srt: "sorted (map word_id m)" using assms(1) by (rule merged_rows_sorted)
  have "\<exists>msg. assert_not_shrunk m baseline = Inl (RuntimeError msg)"
  proof (cases "int (length m) < count baseline")
    case True
    then show ?thesis by (simp add: assert_not_shrunk_def)
  next
    case False
    with assms(2) consider
        x where "min_id baseline = Some x" "m \<noteq> []" "x < Min (word_id ` set m)"
      | x where "max_id baseline = Some x" "m \<noteq> []" "Max (word_id ` set m) < x"
      by blast
    then show ?thesis
    proof cases
      case 1
      with sorted_key_hd_Min[OF srt] have "x < word_id (hd m)" by simp
      with 1 False show ?thesis by (simp add: assert_not_shrunk_def Let_def)
    next
      case 2
      with sorted_key_last_Max[OF srt] have "word_id (last m) < x" by simp
      with 2 False show ?thesis by (auto simp: assert_not_shrunk_def Let_def)
    qed
  qed
  then obtain msg where "assert_not_shrunk m baseline = Inl (RuntimeError msg)" ..
  with assms(1) show ?thesis by (auto simp: merge_and_rewrite_atomic_def)
qed

text \<open>
  The theorem on a stored table of two rows (ids 7 and 9), nothing in memory and a
  baseline of three rows: the merged table has two rows, the call raises and the
  stored table stays.
\<close>

definition demo_table :: CsvTable where
  "demo_table = \<lparr>headers = RUN_CSV_HEADERS,
     records = [\<lparr>line_number = 2, rec_values = [asc ''7'', asc ''om'', asc ''N'', asc ''3'',
                  asc ''uncertain'', asc ''0.3'', asc ''t'', asc ''m'', asc ''r'']\<rparr>,
               \<lparr>line_number = 3, rec_values = [asc ''9'', asc ''casa'', asc ''N'', asc ''1'',
                  asc ''common'', asc ''0.9'', asc ''t2'', asc ''m'', asc ''r'']\<rparr>]\<rparr>"

definition demo_rows :: "RunCsvRow list" where
  "demo_rows =
     [\<lparr>word_id = 7, word = asc ''om'', type = asc ''N'', rarity_level = 3,
       tag = asc ''uncertain'', confidence = 3 / 10, scored_at = asc ''t'',
       model = asc ''m'', run_slug = asc ''r''\<rparr>,
      \<lparr>word_id = 9, word = asc ''casa'', type = asc ''N'', rarity_level = 1,
       tag = asc ''common'', confidence = 9 / 10, scored_at = asc ''t2'',
       model = asc ''m'', run_slug = asc ''r''\<rparr>]"

lemma demo_merged: "merged_rows_of ascii_builtins (Stored (Inr demo_table)) [] = Inr demo_rows"
  by code_simp

theorem merge_guard_fires_before_write_witness:
  "merged_rows_of ascii_builtins (Stored (Inr demo_table)) [] = Inr demo_rows
   \<and> int (length demo_rows) < count \<lparr>count = 3, min_id = Some 1, max_id = Some 9\<rparr>
   \<and> (\<exists>msg. merge_and_rewrite_atomic ascii_builtins (\<lambda>r h. []) (Stored (Inr demo_table)) []
                 \<lparr>count = 3, min_id = Some 1, max_id = Some 9\<rparr>
               = (Some (RuntimeError msg), Stored (Inr demo_table)))"
proof -
  have c: "int (length demo_rows) < count \<lparr>count = 3, min_id = Some 1, max_id = Some 9\<rparr>"
    by (simp add: demo_rows_def)
  from merge_guard_fires_before_write[OF demo_merged disjI1, OF c] demo_merged c
  show ?thesis by blast
qed

section \<open>The rebalance loop (transitions.py, steps/step5_rebalance.py)\<close>
















section \<open>The cumulative assignment follows the ratio\<close>



















text \<open>
  The end-to-end case of the claim: source 2, target 1, \<open>lower_ratio = 0.5\<close>, ten
  eligible words in two batches of five, the mock endpoint. The first batch gets
  \<open>round(2.5) = 2\<close> words at level 1, the second the remaining 3: five words end at
  level 1 and five stay at level 2.
\<close>





section \<open>Fuzzy word matcher (fuzzy_word_matcher.py)\<close>









text \<open>
  The Levenshtein distance it is measured against: the least number of insertions,
  deletions and substitutions of single characters that turn one string into the
  other, by the usual recursion on the two strings.
\<close>

fun edit_distance :: "'a list \<Rightarrow> 'a list \<Rightarrow> nat" where
  "edit_distance [] ys = length ys"
| "edit_distance (x # xs) [] = length (x # xs)"
| "edit_distance (x # xs) (y # ys) =
     min (min (edit_distance xs (y # ys) + 1) (edit_distance (x # xs) ys + 1))
         (edit_distance xs ys + (if x = y then 0 else 1))"

section \<open>The table of \<open>levenshtein\<close> holds the edit distances of the prefixes\<close>

lemma edit_distance_Nil2 [simp]: "edit_distance xs [] = length xs"
  by (cases xs) simp_all




lemma edit_distance_same [simp]: "edit_distance xs xs = 0"
  by (induction xs) simp_all







end
